theory Spec2Isabelle
  imports Main "HOL-Library.Sublist"
begin

section \<open>JavaScript strings\<close>

text \<open>
  A string is the list of its code units. The model covers the strings whose code units
  lie in the 8-bit range (ASCII and Latin-1), where \<open>length\<close> is the JavaScript
  \<open>.length\<close>. The fixed templates of the tools hold three symbols outside that range (a
  wave, an arrow and a check mark); they are written as their UTF-8 bytes. Where
  \<open>create.tool.ts\<close> and \<open>create-tension-chart.tool.ts\<close> hold the wave U+1F30A, the
  literals of \<open>bias-detector.tool.ts\<close> hold the four units U+00F0 U+0178 U+0152 U+0160, and
  the three units U+00E2 U+0153 U+2026 in the place of the check mark U+2705. Five of these
  units lie outside the 8-bit range as well; each unit is written as the byte it has in
  Windows-1252, and these bytes are the four of \<open>wave\<close> and the three of
  \<open>checkmark\<close>. No function of the tools reads the length or the content of a template.
\<close>

definition nl :: string where
  "nl = [CHR 0x0A]"

definition apos :: string where
  "apos = [CHR 0x27]"

definition wave :: string where
  "wave = [CHR 0xF0, CHR 0x9F, CHR 0x8C, CHR 0x8A]"

definition arrow :: string where
  "arrow = [CHR 0xE2, CHR 0x86, CHR 0x92]"

definition checkmark :: string where
  "checkmark = [CHR 0xE2, CHR 0x9C, CHR 0x85]"

text \<open>
  \<open>String.prototype.toLowerCase\<close> on the 8-bit range: the letters A to Z and the
  Latin-1 capitals 0xC0 to 0xDE (0xD7, the multiplication sign, apart) move up by 0x20,
  which sets bit 5 of the code unit; every other unit stays.
\<close>

definition isUpperUnit :: "char \<Rightarrow> bool" where
  "isUpperUnit c = (let n = (of_char c :: nat) in
     (65 \<le> n \<and> n \<le> 90) \<or> (192 \<le> n \<and> n \<le> 222 \<and> n \<noteq> 215))"

definition toLowerUnit :: "char \<Rightarrow> char" where
  "toLowerUnit c = (if isUpperUnit c
     then (case c of Char b0 b1 b2 b3 b4 b5 b6 b7 \<Rightarrow> Char b0 b1 b2 b3 b4 True b6 b7)
     else c)"

definition toLowerCase :: "string \<Rightarrow> string" where
  "toLowerCase s = map toLowerUnit s"

text \<open>
  \<open>String.prototype.includes\<close>: the search string occurs somewhere as a contiguous
  run of code units (the empty search string always does).
\<close>

fun str_includes :: "string \<Rightarrow> string \<Rightarrow> bool" where
  "str_includes [] w = (w = [])"
| "str_includes (c # cs) w = (prefix w (c # cs) \<or> str_includes cs w)"

text \<open>
  \<open>String.prototype.trim\<close> strips white space and line terminators from both ends;
  in the 8-bit range these are tab, line feed, vertical tab, form feed, carriage return,
  space and the no-break space.
\<close>

definition isWhiteSpace :: "char \<Rightarrow> bool" where
  "isWhiteSpace c = (c \<in> set [CHR 0x09, CHR 0x0A, CHR 0x0B, CHR 0x0C, CHR 0x0D, CHR 0x20, CHR 0xA0])"

definition trim :: "string \<Rightarrow> string" where
  "trim s = rev (dropWhile isWhiteSpace (rev (dropWhile isWhiteSpace s)))"

text \<open>\<open>Array.prototype.join\<close> on a list of strings.\<close>

fun join :: "string list \<Rightarrow> string \<Rightarrow> string" where
  "join [] sep = []"
| "join [x] sep = x"
| "join (x # y # ys) sep = x @ sep @ join (y # ys) sep"

text \<open>
  An optional argument is \<open>None\<close> when the caller left it out (\<open>undefined\<close>).
  \<open>!s?.trim()\<close> holds of an absent string and of one that trims to the empty string.
\<close>

fun isBlank :: "string option \<Rightarrow> bool" where
  "isBlank None = True"
| "isBlank (Some s) = (trim s = [])"

text \<open>A string that is present is truthy unless it is empty.\<close>

fun truthy :: "string option \<Rightarrow> bool" where
  "truthy None = False"
| "truthy (Some s) = (s \<noteq> [])"

section \<open>The external generation engine\<close>

text \<open>
  \<open>executeGeminiCLI(prompt, model, ...)\<close> is outside the tools: it is a parameter of
  every \<open>execute\<close>, a function of the prompt and the model hint that returns the
  generated text or fails. An \<open>execute\<close> returns its result (\<open>Inl\<close> for a thrown
  \<open>Error\<close>) together with the list of the calls it made to the engine, in order.
  Progress notifications and log lines are left out.
\<close>

datatype error = Error string

type_synonym engine = "string \<Rightarrow> string option \<Rightarrow> error + string"

type_synonym engine_call = "string \<times> string option"

type_synonym outcome = "(error + string) \<times> engine_call list"

section \<open>create.tool.ts\<close>

text \<open>
  JavaScript numbers that only ever hold small integers are \<open>int\<close>. \<open>Array.prototype.some\<close>
  is \<open>list_ex\<close> and \<open>Array.prototype.filter\<close> is \<open>filter\<close>. A function whose parameter
  has the name of a record field is written as an abstraction, which keeps both names.
\<close>

record StructuralTension =
  vision :: string
  currentReality :: string
  tension :: int
  energy :: string

definition analyzeVisionQuality :: "string \<Rightarrow> int" where
  "analyzeVisionQuality = (\<lambda>vision.
     let score = 5;
         score = (if length vision > 50 then score + 1 else score);
         score = (if str_includes vision ''create'' \<or> str_includes vision ''build''
                     \<or> str_includes vision ''achieve'' then score + 1 else score);
         score = (if \<not> str_includes (toLowerCase vision) ''problem''
                     \<and> \<not> str_includes (toLowerCase vision) ''fix'' then score + 2 else score);
         creativeWords = [''manifest'', ''bring into being'', ''establish'', ''design'',
                          ''develop'', ''realize''];
         score = (if list_ex (\<lambda>word. str_includes (toLowerCase vision) word) creativeWords
                  then score + 2 else score);
         problemWords = [''solve'', ''eliminate'', ''stop'', ''prevent'', ''avoid'', ''fix'',
                         ''resolve issues''];
         score = (if list_ex (\<lambda>word. str_includes (toLowerCase vision) word) problemWords
                  then score - 3 else score)
     in max 1 (min 10 score))"

definition analyzeRealityQuality :: "string \<Rightarrow> int" where
  "analyzeRealityQuality reality =
    (let score = 5;
         score = (if length reality > 30 then score + 1 else score);
         score = (if length reality > 100 then score + 1 else score);
         objectiveWords = [''currently'', ''have'', ''am'', ''exists'', ''experience''];
         score = (if list_ex (\<lambda>word. str_includes (toLowerCase reality) word) objectiveWords
                  then score + 1 else score);
         judgmentWords = [''terrible'', ''awful'', ''wrong'', ''bad'', ''should'', ''must''];
         score = (if list_ex (\<lambda>word. str_includes (toLowerCase reality) word) judgmentWords
                  then score - 2 else score);
         actionWords = [''need to'', ''plan to'', ''going to'', ''will''];
         score = (if list_ex (\<lambda>word. str_includes (toLowerCase reality) word) actionWords
                  then score - 1 else score)
     in max 1 (min 10 score))"

definition generateTensionDescription :: "int \<Rightarrow> int \<Rightarrow> int \<Rightarrow> string" where
  \<open>generateTensionDescription tensionStrength visionClarity realityClarity =
    (if tensionStrength \<ge> 8 then
       wave @ '' Excellent structural tension - both vision and reality are clear and specific. Strong creative energy available for advancement.''
     else if tensionStrength \<ge> 6 then
       wave @ '' Good structural tension - clear enough for creative movement. Some refinement could increase energy.''
     else if visionClarity < realityClarity then
       wave @ '' Moderate tension - vision could be more specific and free from problem-solving language for stronger creative orientation.''
     else if realityClarity < visionClarity then
       wave @ '' Moderate tension - current reality could be more objective and detailed for clearer structural awareness.''
     else
       wave @ '' Developing tension - both vision and current reality need refinement for stronger creative force.'')\<close>

definition calculateStructuralTension :: "string \<Rightarrow> string \<Rightarrow> StructuralTension" where
  "calculateStructuralTension = (\<lambda>vision currentReality.
     let visionClarity = analyzeVisionQuality vision;
         realityClarity = analyzeRealityQuality currentReality;
         tensionStrength = min visionClarity realityClarity
     in \<lparr> StructuralTension.vision = vision,
          StructuralTension.currentReality = currentReality,
          StructuralTension.tension = tensionStrength,
          StructuralTension.energy =
            generateTensionDescription tensionStrength visionClarity realityClarity \<rparr>)"

text \<open>
  The prompt builders take the fields of their \<open>config\<close> object as arguments. An absent
  or empty \<open>timeframe\<close> or \<open>resources\<close> adds no line.
\<close>

definition buildGerminationPrompt ::
  "string \<Rightarrow> string option \<Rightarrow> string option \<Rightarrow> string option \<Rightarrow> string" where
  \<open>buildGerminationPrompt = (\<lambda>desiredOutcome currentReality timeframe resources.
     ''# GERMINATION - Creative Vision Development'' @ nl @
     nl @
     ''## Your Creative Vision'' @ nl @
     desiredOutcome @ nl @
     nl @
     ''## Current Reality  '' @ nl @
     (case currentReality of None \<Rightarrow> ''Where are you now in relation to this vision?''
        | Some r \<Rightarrow> if r = [] then ''Where are you now in relation to this vision?'' else r) @ nl @
     nl @
     ''## Germination Energy'' @ nl @
     ''This is the exciting beginning phase of creation. Feel the possibility and energy of what you want to create.'' @ nl @
     nl @
     ''### Vision Clarification:'' @ nl @
     ''- What does the completed creation look like specifically?'' @ nl @
     ''- What draws you to create this particular outcome?'' @ nl @
     ''- What aspects excite you most?'' @ nl @
     ''- What would success look and feel like?'' @ nl @
     ''- How will you know when it'' @ apos @ ''s complete?'' @ nl @
     nl @
     ''### Initial Actions:'' @ nl @
     ''- What'' @ apos @ ''s one small step you could take today?'' @ nl @
     ''- What research or exploration would be helpful?'' @ nl @
     ''- What resources or connections might you need?'' @ nl @
     ''- Who else might be interested in this creation?'' @ nl @
     nl @
     ''### Balance Planning and Action:'' @ nl @
     ''- Do some initial planning, but don'' @ apos @ ''t over-plan'' @ nl @
     ''- Take action alongside planning'' @ nl @
     ''- Let the vision guide you, not methodology'' @ nl @
     ''- Stay connected to what you want to create'' @ nl @
     nl @
     ''**Remember:** This is about bringing something into being that you want to exist. Trust your creative instincts and the energy of this beginning phase.'' @ nl @
     nl @
     (case timeframe of None \<Rightarrow> [] | Some s \<Rightarrow> if s = [] then [] else nl @ ''**Timeframe:** '' @ s) @ nl @
     (case resources of None \<Rightarrow> [] | Some s \<Rightarrow> if s = [] then [] else nl @ ''**Available Resources:** '' @ s))\<close>

definition buildAssimilationPrompt ::
  "string \<Rightarrow> string \<Rightarrow> string option \<Rightarrow> string option \<Rightarrow> string" where
  \<open>buildAssimilationPrompt = (\<lambda>desiredOutcome currentReality timeframe resources.
     ''# ASSIMILATION - Making Creation Part of You'' @ nl @
     nl @
     ''## Structural Tension Map'' @ nl @
     ''**Vision:** '' @ desiredOutcome @ nl @
     ''**Current Reality:** '' @ currentReality @ nl @
     ''**Creative Tension:** The gap between vision and reality generates energy to move toward your desired outcome.'' @ nl @
     nl @
     ''## Assimilation Process'' @ nl @
     ''The initial excitement may be settling, but this is where real creative work happens. You'' @ apos @ ''re internalizing the creative process.'' @ nl @
     nl @
     ''### Structural Tension Work:'' @ nl @
     ''- Hold both vision AND current reality clearly in awareness'' @ nl @
     ''- Feel the natural tension - this is your creative power'' @ nl @
     ''- Notice how this tension wants to resolve toward your vision'' @ nl @
     ''- Trust that your mind will generate solutions'' @ nl @
     nl @
     ''### Momentum Building:'' @ nl @
     ''- What actions are naturally emerging from this tension?'' @ nl @
     ''- What resources are becoming available?'' @ nl @
     ''- What connections or opportunities are appearing?'' @ nl @
     ''- What new insights are being generated?'' @ nl @
     ''- What coincidences or synchronicities are occurring?'' @ nl @
     nl @
     ''### Progress Assessment:'' @ nl @
     ''- How is your vision becoming clearer and more specific?'' @ nl @
     ''- What aspects of the end result are starting to become visible?'' @ nl @
     ''- What course corrections are needed based on what you'' @ apos @ ''re learning?'' @ nl @
     ''- What'' @ apos @ ''s working well in your creative process?'' @ nl @
     ''- What obstacles are resolving naturally?'' @ nl @
     nl @
     ''### Natural Movement:'' @ nl @
     ''- What feels like the natural next step?'' @ nl @
     ''- Where do you have the most energy and momentum?'' @ nl @
     ''- What would bring you closer to your desired outcome?'' @ nl @
     ''- What adjustments want to be made?'' @ nl @
     nl @
     ''**Trust the Process:** Allow natural movement and useful coincidences to emerge. Your creative unconscious is working when structural tension is clearly established.'' @ nl @
     nl @
     (case timeframe of None \<Rightarrow> [] | Some s \<Rightarrow> if s = [] then [] else nl @ ''**Timeline Check:** '' @ s) @ nl @
     (case resources of None \<Rightarrow> [] | Some s \<Rightarrow> if s = [] then [] else nl @ ''**Resource Status:** '' @ s))\<close>

definition buildCompletionPrompt ::
  "string \<Rightarrow> string \<Rightarrow> string option \<Rightarrow> string option \<Rightarrow> string" where
  \<open>buildCompletionPrompt = (\<lambda>desiredOutcome currentReality timeframe resources.
     ''# COMPLETION - Bringing Creation to Full Fruition'' @ nl @
     nl @
     ''## Near-Completion Status'' @ nl @
     ''**Original Vision:** '' @ desiredOutcome @ nl @
     ''**Current Progress:** '' @ currentReality @ nl @
     ''**Phase:** Final stages of creative process'' @ nl @
     nl @
     ''## Completion Guidance'' @ nl @
     ''Your creation is nearly complete. This phase has its own energy and requirements.'' @ nl @
     nl @
     ''### Finishing Touches:'' @ nl @
     ''- What final details will bring this to full completion?'' @ nl @
     ''- What finishing touches would make this truly satisfying?'' @ nl @
     ''- What would make you proud to share this creation?'' @ nl @
     ''- What small refinements would perfect it?'' @ nl @
     nl @
     ''### Completion Resistance Management:'' @ nl @
     ''- Resist urge to add unnecessary complexity'' @ nl @
     ''- Don'' @ apos @ ''t get distracted by new exciting projects'' @ nl @
     ''- Stay focused on completing what you started'' @ nl @
     ''- Recognize that completion anxiety is normal'' @ nl @
     nl @
     ''### Quality Assessment:'' @ nl @
     ''- Does this creation fulfill your original vision?'' @ nl @
     ''- What aspects exceed your expectations?'' @ nl @
     ''- What would you do differently next time?'' @ nl @
     ''- What are you most proud of in this creation?'' @ nl @
     nl @
     ''### Transition Preparation:'' @ nl @
     ''- How will you know when this is truly complete?'' @ nl @
     ''- What will it feel like to shift from creator to audience?'' @ nl @
     ''- How will you celebrate and appreciate what you'' @ apos @ ''ve created?'' @ nl @
     ''- What new creative visions are emerging from this completion?'' @ nl @
     nl @
     ''### Final Steps:'' @ nl @
     ''- What would bring this creative process to successful conclusion?'' @ nl @
     ''- What documentation or presentation does it need?'' @ nl @
     ''- Who would appreciate seeing this completed creation?'' @ nl @
     ''- How does this completion set you up for future creations?'' @ nl @
     nl @
     ''**Complete the Cycle:** Finish this creation fully so you can appreciate what you'' @ apos @ ''ve brought into being and be ready for your next creative adventure.'' @ nl @
     nl @
     (case timeframe of None \<Rightarrow> [] | Some s \<Rightarrow> if s = [] then [] else nl @ ''**Timeline:** '' @ s) @ nl @
     (case resources of None \<Rightarrow> [] | Some s \<Rightarrow> if s = [] then [] else nl @ ''**Final Resources:** '' @ s))\<close>

definition buildStructuralTensionPrompt :: "StructuralTension \<Rightarrow> string" where
  \<open>buildStructuralTensionPrompt = (\<lambda>tension.
     ''# STRUCTURAL TENSION - Your Creative Energy'' @ nl @
     nl @
     ''## Vision (What You Want to Create)'' @ nl @
     StructuralTension.vision tension @ nl @
     nl @
     ''## Current Reality (Where You Are Now)  '' @ nl @
     StructuralTension.currentReality tension @ nl @
     nl @
     ''## The Creative Tension'' @ nl @
     StructuralTension.energy tension @ nl @
     nl @
     ''This tension is your creative power. It wants to resolve by moving toward your vision. What actions naturally want to emerge from this tension?'' @ nl @
     nl @
     ''### Questions for Movement:'' @ nl @
     ''- What'' @ apos @ ''s the smallest step you could take toward your vision today?'' @ nl @
     ''- What resources do you have available right now?'' @ nl @
     ''- What would bring you closer to your desired outcome?'' @ nl @
     ''- What feels like the natural next action?'' @ nl @
     nl @
     ''**Trust the Tension:** This discrepancy between vision and reality is not a problem to solve - it'' @ apos @ ''s the creative force that will move you toward what you want to create.'')\<close>

text \<open>
  The gate on the desired outcome: \<open>null\<close> is \<open>None\<close>. The word list and the matches
  are the local constants \<open>problemWords\<close> and \<open>detectedWords\<close> of
  \<open>detectProblemSolvingLanguage\<close> in the source, and \<open>gate_redirect\<close> is the template
  literal that the function returns, with the matches joined into it.
\<close>

definition gate_problemWords :: "string list" where
  "gate_problemWords = [''problem'', ''challenge'', ''fix'', ''solve'', ''issue'', ''difficulty'',
     ''trouble'', ''prevent'', ''stop'', ''avoid'', ''eliminate'']"

definition gate_detectedWords :: "string \<Rightarrow> string list" where
  "gate_detectedWords text =
     filter (\<lambda>word. str_includes (toLowerCase text) word) gate_problemWords"

definition gate_redirect :: "string list \<Rightarrow> string" where
  \<open>gate_redirect detectedWords =
     wave @ '' **REACTIVE PATTERN DETECTED**'' @ nl @
     nl @
     ''I noticed problem-solving language in your description: "'' @ join detectedWords '', '' @ ''"'' @ nl @
     nl @
     ''**Creative Orientation Reframe**:'' @ nl @
     ''The creative process is about bringing desired outcomes into being, not solving problems or eliminating what you don'' @ apos @ ''t want.'' @ nl @
     nl @
     ''**Instead of**: "I need to fix/solve/stop..."'' @ nl @
     ''**Try**: "I want to create/establish/bring into being..."'' @ nl @
     nl @
     ''**Structural Shift**:'' @ nl @
     ''- **Reactive-Responsive**: Focus on what'' @ apos @ ''s wrong '' @ arrow @ '' eliminate problems'' @ nl @
     ''- **Creative Orientation**: Focus on what you want '' @ arrow @ '' manifest desired outcomes'' @ nl @
     nl @
     ''**Question for Reframe**: What specific positive outcome do you want to create or bring into existence?'' @ nl @
     nl @
     ''This shift moves you from reactive patterns (which often create oscillation) to creative patterns (which generate advancing structures).''\<close>

definition detectProblemSolvingLanguage :: "string \<Rightarrow> string option" where
  "detectProblemSolvingLanguage text =
    (let detectedWords = gate_detectedWords text in
     if length detectedWords > 0 then Some (gate_redirect detectedWords)
     else None)"

text \<open>
  The arguments of the tool; a field the caller left out is \<open>None\<close>. The redirect of
  the gate is a non-empty string whenever it is not \<open>null\<close>
  (\<open>detectProblemSolvingLanguage_truthy\<close> below), so \<open>if (problemRedirect)\<close> is the test
  for \<open>Some\<close>. Where the source reads \<open>currentReality as string\<close>, the guard before it
  has made the field present, and the model reads it with \<open>the\<close>.
\<close>

record CreateArgs =
  desiredOutcome :: "string option"
  currentReality :: "string option"
  creativePhase :: "string option"
  model :: "string option"
  timeframe :: "string option"
  resources :: "string option"

definition createTool_execute :: "engine \<Rightarrow> CreateArgs \<Rightarrow> outcome" where
  \<open>createTool_execute executeGeminiCLI args =
    (let currentReality = CreateArgs.currentReality args;
         creativePhase = (case CreateArgs.creativePhase args of
                            None \<Rightarrow> ''germination'' | Some phase \<Rightarrow> phase);
         model = CreateArgs.model args;
         timeframe = CreateArgs.timeframe args;
         resources = CreateArgs.resources args
     in
     case CreateArgs.desiredOutcome args of
       None \<Rightarrow> (Inl (Error (''What specific outcome do you want to create? The creative process begins with a clear desired result, not a problem to solve.'')), [])
     | Some outcome \<Rightarrow>
       if trim outcome = [] then
         (Inl (Error (''What specific outcome do you want to create? The creative process begins with a clear desired result, not a problem to solve.'')), [])
       else
       case detectProblemSolvingLanguage outcome of
         Some problemRedirect \<Rightarrow> (Inr problemRedirect, [])
       | None \<Rightarrow>
         let enhancedPrompt =
          (if creativePhase = ''germination'' then
             Inr (buildGerminationPrompt outcome currentReality timeframe resources)
           else if creativePhase = ''assimilation'' then
             (if isBlank currentReality then
                Inl (Error (''Assimilation phase requires both your vision AND current reality to establish structural tension.''))
              else Inr (buildAssimilationPrompt outcome (the currentReality) timeframe resources))
           else if creativePhase = ''completion'' then
             (if isBlank currentReality then
                Inl (Error (''Completion phase requires understanding where you are now in relation to your original vision.''))
              else Inr (buildCompletionPrompt outcome (the currentReality) timeframe resources))
           else Inl (Error (''Invalid creative phase. Please specify: germination, assimilation, or completion.'')))
         in
         case enhancedPrompt of
           Inl e \<Rightarrow> (Inl e, [])
         | Inr prompt \<Rightarrow>
            (case executeGeminiCLI prompt model of
               Inl e \<Rightarrow> (Inl e, [(prompt, model)])
             | Inr result \<Rightarrow>
                 if creativePhase = ''assimilation'' \<and> truthy currentReality then
                   (Inr (result @ nl @ nl @ ''---'' @ nl @ nl @
                         buildStructuralTensionPrompt
                           (calculateStructuralTension outcome (the currentReality))),
                    [(prompt, model)])
                 else (Inr result, [(prompt, model)])))\<close>

section \<open>bias-detector.tool.ts\<close>

datatype biasType = ProblemSolving | Enhancement | GapFilling | Reactive | NoBias

datatype severity = Low | Medium | High

text \<open>The string literals that the two union types stand for in the source.\<close>

fun biasType_str :: "biasType \<Rightarrow> string" where
  "biasType_str ProblemSolving = ''problem-solving''"
| "biasType_str Enhancement = ''enhancement''"
| "biasType_str GapFilling = ''gap-filling''"
| "biasType_str Reactive = ''reactive''"
| "biasType_str NoBias = ''none''"

fun severity_str :: "severity \<Rightarrow> string" where
  "severity_str Low = ''low''"
| "severity_str Medium = ''medium''"
| "severity_str High = ''high''"

record BiasAnalysis =
  hasBias :: bool
  detectedPatterns :: "string list"
  biasType :: biasType
  severity :: severity
  suggestions :: "string list"

text \<open>
  The three word lists, the three lists of matches and their concatenation are local
  constants of \<open>detectReactivePatterns\<close> in the source; the matches are functions of the
  text here.
\<close>

definition problemSolvingWords :: "string list" where
  "problemSolvingWords = [
     ''problem'', ''challenge'', ''issue'', ''difficulty'', ''trouble'',
     ''fix'', ''solve'', ''resolve'', ''address'', ''tackle'',
     ''eliminate'', ''prevent'', ''stop'', ''avoid'', ''reduce'',
     ''improve'', ''enhance'', ''optimize'', ''upgrade'', ''better'']"

definition gapFillingWords :: "string list" where
  "gapFillingWords = [
     ''gap'', ''bridge'', ''fill'', ''void'', ''missing'', ''lack'',
     ''need'', ''should'', ''must'', ''require'', ''necessary'']"

definition reactiveStructures :: "string list" where
  "reactiveStructures = [
     ''how to'', ''ways to'', ''steps to'', ''methods for'',
     ''in order to'', ''so that'', ''to ensure'']"

definition detectedProblems :: "string \<Rightarrow> string list" where
  "detectedProblems text =
     filter (\<lambda>word. str_includes (toLowerCase text) word) problemSolvingWords"

definition detectedGaps :: "string \<Rightarrow> string list" where
  "detectedGaps text =
     filter (\<lambda>word. str_includes (toLowerCase text) word) gapFillingWords"

definition detectedStructures :: "string \<Rightarrow> string list" where
  "detectedStructures text =
     filter (\<lambda>phrase. str_includes (toLowerCase text) phrase) reactiveStructures"

definition allDetected :: "string \<Rightarrow> string list" where
  "allDetected text = detectedProblems text @ detectedGaps text @ detectedStructures text"

fun generateReframeSuggestions :: "string list \<Rightarrow> biasType \<Rightarrow> string list" where
  \<open>generateReframeSuggestions detectedWords ProblemSolving =
     [''Reframe from '' @ apos @ ''What problem needs solving?'' @ apos @ '' to '' @ apos @ ''What outcome do I want to create?'' @ apos,
      ''Replace problem language with desired end states'',
      ''Focus on what you want to bring into being, not what you want to eliminate'']\<close>
| \<open>generateReframeSuggestions detectedWords GapFilling =
     [''Instead of '' @ apos @ ''bridging gaps'' @ apos @ '', describe the complete desired outcome'',
      ''Replace '' @ apos @ ''what'' @ apos @ ''s missing'' @ apos @ '' with '' @ apos @ ''what I want to establish'' @ apos,
      ''Shift from void-elimination to outcome-manifestation'']\<close>
| \<open>generateReframeSuggestions detectedWords Enhancement =
     [''Move from '' @ apos @ ''making X better'' @ apos @ '' to '' @ apos @ ''creating specific desired version of X'' @ apos,
      ''Define the complete desired outcome, not improvements to current state'',
      ''Ask '' @ apos @ ''What do I want to create?'' @ apos @ '' rather than '' @ apos @ ''How can I improve this?'' @ apos]\<close>
| \<open>generateReframeSuggestions detectedWords Reactive =
     [''Identify the desired outcome first, then consider structural tension'',
      ''Replace reactive responses with proactive creation'',
      ''Focus on advancing toward vision, not reacting to circumstances'']\<close>
| \<open>generateReframeSuggestions detectedWords NoBias =
     [''Consider using creative orientation language'']\<close>

definition detectReactivePatterns :: "string \<Rightarrow> BiasAnalysis" where
  "detectReactivePatterns text =
    (if length (allDetected text) = 0 then
       \<lparr> hasBias = False, detectedPatterns = [], biasType = NoBias,
         severity = Low, suggestions = [] \<rparr>
     else
       let (biasType, severity) =
        (if length (detectedProblems text) > 0 then
           (ProblemSolving,
            if length (detectedProblems text) > 3 then High
            else if length (detectedProblems text) > 1 then Medium else Low)
         else if length (detectedGaps text) > 0 then
           (GapFilling,
            if length (detectedGaps text) > 3 then High
            else if length (detectedGaps text) > 1 then Medium else Low)
         else if str_includes (toLowerCase text) ''improve''
                 \<or> str_includes (toLowerCase text) ''enhance'' then
           (Enhancement, Medium)
         else (Reactive, Low));
           suggestions = generateReframeSuggestions (allDetected text) biasType
       in \<lparr> hasBias = True, detectedPatterns = allDetected text, biasType = biasType,
            severity = severity, suggestions = suggestions \<rparr>)"

text \<open>
  \<open>toUpperCase\<close> is applied to the names of the bias types and of the severities only:
  lower-case ASCII letters lose bit 5, every other unit of these names stays.
\<close>

definition toUpperUnit :: "char \<Rightarrow> char" where
  "toUpperUnit c = (let n = (of_char c :: nat) in
     if 97 \<le> n \<and> n \<le> 122
     then (case c of Char b0 b1 b2 b3 b4 b5 b6 b7 \<Rightarrow> Char b0 b1 b2 b3 b4 False b6 b7)
     else c)"

definition toUpperCase :: "string \<Rightarrow> string" where
  "toUpperCase s = map toUpperUnit s"

text \<open>Decimal numerals, for the numbered lists of the reports.\<close>

function showNat :: "nat \<Rightarrow> string" where
  "showNat n = (if n < 10 then [''0123456789'' ! n]
                else showNat (n div 10) @ [''0123456789'' ! (n mod 10)])"
  by pat_completeness auto
termination
  by (relation "measure id") auto

definition numbered :: "string list \<Rightarrow> string list" where
  "numbered xs = map (\<lambda>(index, x). showNat (index + 1) @ ''. '' @ x) (enumerate 0 xs)"

definition buildBiasAnalysisPrompt :: "string \<Rightarrow> BiasAnalysis \<Rightarrow> string" where
  \<open>buildBiasAnalysisPrompt text analysis =
    (if \<not> hasBias analysis then
     wave @ '' **BIAS ANALYSIS: CLEAN CREATIVE ORIENTATION**'' @ nl @
     nl @
     ''**Text Analyzed**: "'' @ text @ ''"'' @ nl @
     nl @
     ''**Result**: '' @ checkmark @ '' No significant reactive bias detected'' @ nl @
     nl @
     ''**Creative Orientation Assessment**:'' @ nl @
     ''- Language appears focused on desired outcomes'' @ nl @
     ''- Minimal problem-solving or enhancement patterns'' @ nl @
     ''- Good foundation for structural tension work'' @ nl @
     nl @
     ''**Suggestions for Enhancement**:'' @ nl @
     ''- Consider making desired outcomes even more specific'' @ nl @
     ''- Ensure current reality is objective and factual'' @ nl @
     ''- Look for opportunities to strengthen creative vision'' @ nl @
     nl @
     ''**Next Steps**: Use `create` or `create-tension-chart` tools to develop this creative orientation further.''
     else
     wave @ '' **REACTIVE BIAS DETECTED**'' @ nl @
     nl @
     ''**Text Analyzed**: "'' @ text @ ''"'' @ nl @
     nl @
     ''**Bias Analysis**:'' @ nl @
     ''- **Type**: '' @ toUpperCase (biasType_str (biasType analysis)) @ nl @
     ''- **Severity**: '' @ toUpperCase (severity_str (severity analysis)) @ nl @
     ''- **Detected Patterns**: '' @ join (detectedPatterns analysis) '', '' @ nl @
     nl @
     ''## Structural Thinking Reframe'' @ nl @
     nl @
     ''**The Issue**: Your language indicates reactive-responsive orientation rather than creative orientation. This typically leads to oscillating patterns instead of advancing patterns.'' @ nl @
     nl @
     ''**Reactive Pattern**: '' @ (if biasType analysis = ProblemSolving then ''Focus on eliminating what you don'' @ apos @ ''t want''
      else if biasType analysis = GapFilling then ''Focus on filling voids or bridging gaps''
      else if biasType analysis = Enhancement then ''Focus on making existing things better''
      else ''Focus on reacting to circumstances rather than creating desired outcomes'') @ nl @
     nl @
     ''**Creative Alternative**: Focus on clearly defining what you want to create or bring into being'' @ nl @
     nl @
     ''## Reframe Suggestions'' @ nl @
     nl @
     join (numbered (suggestions analysis)) nl @ nl @
     nl @
     ''## Conversion Questions'' @ nl @
     nl @
     ''**Instead of asking**: "How do I solve/fix/improve this?"'' @ nl @
     ''**Ask**: "What specific outcome do I want to create?"'' @ nl @
     nl @
     ''**Instead of saying**: "I need to eliminate/prevent/stop..."'' @ nl @
     ''**Say**: "I want to establish/create/manifest..."'' @ nl @
     nl @
     ''## Structural Tension Approach'' @ nl @
     nl @
     ''Once you'' @ apos @ ''ve reframed in creative language:'' @ nl @
     ''1. **Desired Outcome**: What do you want to create?'' @ nl @
     ''2. **Current Reality**: Where are you now objectively?'' @ nl @
     ''3. **Structural Tension**: Feel the natural tension between these two'' @ nl @
     ''4. **Action Steps**: What naturally wants to emerge from this tension?'' @ nl @
     nl @
     ''**Next Step**: Rewrite your request using creative orientation language, then use `create` or `create-tension-chart` tools.'')\<close>

text \<open>
  The arguments of the tool. \<open>focus\<close> is read from the arguments, with its default, and
  not used after that, as in the source.
\<close>

record BiasArgs =
  "text" :: "string option"
  autoCorrect :: "bool option"
  focus :: "string option"
  model :: "string option"

definition biasDetectorTool_execute :: "engine \<Rightarrow> BiasArgs \<Rightarrow> outcome" where
  \<open>biasDetectorTool_execute executeGeminiCLI args =
    (let autoCorrect = (case BiasArgs.autoCorrect args of None \<Rightarrow> False | Some b \<Rightarrow> b);
         focus = (case BiasArgs.focus args of None \<Rightarrow> ''all'' | Some f \<Rightarrow> f);
         model = BiasArgs.model args
     in
     case BiasArgs.text args of
       None \<Rightarrow> (Inl (Error (wave @ '' What text do you want to analyze for reactive bias patterns?'')), [])
     | Some input \<Rightarrow>
       if input = [] \<or> trim input = [] then
         (Inl (Error (wave @ '' What text do you want to analyze for reactive bias patterns?'')), [])
       else
         let analysis = detectReactivePatterns input;
             analysisResult = buildBiasAnalysisPrompt input analysis
         in
         if \<not> autoCorrect \<or> \<not> hasBias analysis then (Inr analysisResult, [])
         else
           let correctionPrompt =
     (analysisResult @ nl @
     nl @
     ''**AUTO-CORRECTION REQUEST**:'' @ nl @
     nl @
     ''Based on the bias analysis above, please provide:'' @ nl @
     nl @
     ''1. **Creative Rewrite**: Rewrite the original text using creative orientation language'' @ nl @
     ''2. **Structural Tension Setup**: Format as desired outcome + current reality if possible'' @ nl @
     ''3. **Action Alternative**: If the original was asking for actions, suggest how to approach this through structural tension'' @ nl @
     nl @
     ''**Original Text**: "'' @ input @ ''"'' @ nl @
     nl @
     ''**Focus on**: '' @ nl @
     ''- What does the person want to CREATE or BRING INTO BEING?'' @ nl @
     ''- How can this be framed as a desired outcome rather than problem elimination?'' @ nl @
     ''- What structural tension would naturally generate the needed actions?'' @ nl @
     nl @
     ''Make the rewrite practical and actionable while maintaining creative orientation.'')
           in
           case executeGeminiCLI correctionPrompt model of
             Inl e \<Rightarrow> (Inl e, [(correctionPrompt, model)])
           | Inr correctionResult \<Rightarrow>
               (Inr (analysisResult @ nl @
     nl @
     ''---'' @ nl @
     nl @
     wave @ '' **AUTO-CORRECTION APPLIED**'' @ nl @
     nl @
     correctionResult),
                [(correctionPrompt, model)]))\<close>

section \<open>create-tension-chart.tool.ts\<close>

record TensionChart =
  id :: string
  desiredOutcome :: string
  currentReality :: string
  dueDate :: string
  actionSteps :: "string list"
  createdAt :: string

text \<open>
  The clock, the random source and the date library are outside the tool. They are the
  fields of an environment: \<open>parseDate s\<close> is the time value of \<open>new Date(s)\<close> in
  milliseconds, \<open>None\<close> for an invalid date (\<open>NaN\<close>); \<open>now\<close> is the time value of
  \<open>new Date()\<close> when the chart is validated; \<open>chartId\<close> is what
  \<open>generateChartId()\<close> returns and \<open>isoNow\<close> what \<open>new Date().toISOString()\<close> returns
  when the chart is built; the last two render a date string in the locale.
\<close>

record ChartEnv =
  parseDate :: "string \<Rightarrow> int option"
  now :: int
  chartId :: string
  isoNow :: string
  toLocaleString :: "string \<Rightarrow> string"
  toLocaleDateString :: "string \<Rightarrow> string"

definition buildTensionChartPrompt :: "ChartEnv \<Rightarrow> TensionChart \<Rightarrow> string" where
  \<open>buildTensionChartPrompt env chart =
     wave @ '' **STRUCTURAL TENSION CHART CREATED**'' @ nl @
     nl @
     ''**Chart ID**: '' @ TensionChart.id chart @ nl @
     ''**Created**: '' @ toLocaleString env (TensionChart.createdAt chart) @ nl @
     nl @
     ''## Core Structural Elements'' @ nl @
     nl @
     ''### Desired Outcome (Vision)'' @ nl @
     TensionChart.desiredOutcome chart @ nl @
     nl @
     ''### Current Reality (Starting Point)'' @ nl @
     TensionChart.currentReality chart @ nl @
     nl @
     ''### Due Date Target'' @ nl @
     toLocaleDateString env (TensionChart.dueDate chart) @ nl @
     nl @
     ''### Strategic Action Steps'' @ nl @
     join (numbered (TensionChart.actionSteps chart)) nl @ nl @
     nl @
     ''## Structural Tension Analysis'' @ nl @
     nl @
     ''**Creative Force**: The gap between your current reality and desired outcome creates natural tension that wants to resolve by moving toward your vision.'' @ nl @
     nl @
     ''**Advancement Pattern**: This chart establishes an advancing structure where:'' @ nl @
     ''- Each completed action step flows into current reality'' @ nl @
     ''- Progress builds momentum for continued advancement'' @ nl @
     ''- Success creates new structural tension for next level outcomes'' @ nl @
     nl @
     ''## Chart Usage Guidance'' @ nl @
     nl @
     ''**Daily Practice**: '' @ nl @
     ''- Hold both vision AND current reality clearly in awareness'' @ nl @
     ''- Feel the natural tension - this is your creative power'' @ nl @
     ''- Trust that actions will naturally emerge from this tension'' @ nl @
     nl @
     ''**Progress Tracking**:'' @ nl @
     ''- Complete action steps and update current reality'' @ nl @
     ''- Notice how completion changes the structural dynamic'' @ nl @
     ''- Celebrate advancement and set new tension for continued growth'' @ nl @
     nl @
     ''**Next Steps**:'' @ nl @
     ''- Use `track-chart-progress` to monitor advancement'' @ nl @
     ''- Use `telescope-action` to break down complex steps'' @ nl @
     ''- Use `update-chart` to refine vision or reality as needed'' @ nl @
     nl @
     ''## Integration with Creative Process'' @ nl @
     nl @
     ''This chart complements your creative phases:'' @ nl @
     ''- **Germination**: Chart captures initial creative excitement and vision'' @ nl @
     ''- **Assimilation**: Chart maintains structural tension for momentum building'' @ nl @
     ''- **Completion**: Chart guides you to successful fruition of desired outcome'' @ nl @
     nl @
     ''**Remember**: This is not a to-do list. It'' @ apos @ ''s a structural tension system that naturally generates the energy and actions needed for creation.''\<close>

text \<open>
  The two word lists (\<open>problemWords\<close> and \<open>actionWords\<close>), the two lists of matches
  (\<open>detectedProblems\<close> and \<open>detectedActions\<close>) and the four violation texts are local to
  \<open>validateChartElements\<close> in the source. The rules run in the order of the source, and
  each \<open>return\<close> ends the function.
\<close>

definition chart_problemWords :: "string list" where
  "chart_problemWords = [''fix'', ''solve'', ''eliminate'', ''prevent'', ''stop'', ''avoid'', ''reduce'']"

definition chart_actionWords :: "string list" where
  "chart_actionWords = [''need to'', ''should'', ''must'', ''will'', ''plan to'', ''going to'']"

definition outcomeViolation :: "string list \<Rightarrow> string" where
  \<open>outcomeViolation = (\<lambda>detectedProblems.
     wave @ '' **Creative Orientation Issue Detected**'' @ nl @
     nl @
     ''Your desired outcome contains problem-solving language: "'' @ join detectedProblems '', '' @ ''"'' @ nl @
     nl @
     ''**Structural Tension Charts** work with creative orientation - what you want to bring into being, not problems to eliminate.'' @ nl @
     nl @
     ''**Reframe Suggestion**: Instead of focusing on what you want to fix/stop/prevent, describe the positive outcome you want to create.'' @ nl @
     nl @
     ''Example:'' @ nl @
     ''- Instead of: "Fix our communication problems"'' @ nl @
     ''- Try: "Establish clear, effective communication practices"'' @ nl @
     nl @
     ''Please reframe your desired outcome in terms of what you want to create or bring into existence.'')\<close>

definition realityViolation :: "string list \<Rightarrow> string" where
  \<open>realityViolation detectedActions =
     wave @ '' **Current Reality Clarity Issue**'' @ nl @
     nl @
     ''Your current reality contains future-oriented language: "'' @ join detectedActions '', '' @ ''"'' @ nl @
     nl @
     ''**Current Reality** should describe what IS now, not what you plan to do or think you should do.'' @ nl @
     nl @
     ''**Objective Description**: State facts about your present situation in relation to your desired outcome.'' @ nl @
     nl @
     ''Example:'' @ nl @
     ''- Instead of: "I need to learn programming"'' @ nl @
     ''- Try: "I have no programming experience but am interested in learning"'' @ nl @
     nl @
     ''Please describe your current reality as objective facts about where you are now.''\<close>

definition dateFormatViolation :: string where
  \<open>dateFormatViolation =
     wave @ '' **Due Date Format Issue**'' @ nl @
     nl @
     ''Please provide a valid date in ISO format (YYYY-MM-DD) or a clear date description.'' @ nl @
     nl @
     ''Examples:'' @ nl @
     ''- "2024-12-31"'' @ nl @
     ''- "December 31, 2024"'' @ nl @
     ''- "Next Friday"''\<close>

definition datePastViolation :: string where
  \<open>datePastViolation =
     wave @ '' **Due Date Issue**'' @ nl @
     nl @
     ''The due date appears to be in the past. Structural tension works best when there'' @ apos @ ''s a clear future target to move toward.'' @ nl @
     nl @
     ''Please provide a future date for your desired outcome.''\<close>

definition chart_detectedProblems :: "string \<Rightarrow> string list" where
  "chart_detectedProblems = (\<lambda>desiredOutcome.
     filter (\<lambda>word. str_includes (toLowerCase desiredOutcome) word) chart_problemWords)"

definition chart_detectedActions :: "string \<Rightarrow> string list" where
  "chart_detectedActions = (\<lambda>currentReality.
     filter (\<lambda>word. str_includes (toLowerCase currentReality) word) chart_actionWords)"

definition validateChartElements :: "ChartEnv \<Rightarrow> string \<Rightarrow> string \<Rightarrow> string \<Rightarrow> string option" where
  "validateChartElements env = (\<lambda>desiredOutcome currentReality dueDate.
     let detectedProblems = chart_detectedProblems desiredOutcome
     in
     if length detectedProblems > 0 then Some (outcomeViolation detectedProblems)
     else
       let detectedActions = chart_detectedActions currentReality
       in
       if length detectedActions > 0 then Some (realityViolation detectedActions)
       else
         case parseDate env dueDate of
           None \<Rightarrow> Some dateFormatViolation
         | Some dueDateTime \<Rightarrow>
             if dueDateTime < now env then Some datePastViolation
             else None)"

text \<open>
  The arguments of the tool. A violation is a non-empty string
  (\<open>validateChartElements_truthy\<close> below), so \<open>if (validationIssue)\<close> is the test for
  \<open>Some\<close>.
\<close>

record ChartArgs =
  desiredOutcome :: "string option"
  currentReality :: "string option"
  dueDate :: string
  actionSteps :: "string list option"
  model :: "string option"
  saveToMemory :: "bool option"

definition createTensionChartTool_execute :: "ChartEnv \<Rightarrow> engine \<Rightarrow> ChartArgs \<Rightarrow> outcome" where
  \<open>createTensionChartTool_execute env executeGeminiCLI args =
    (let dueDate = ChartArgs.dueDate args;
         actionSteps = (case ChartArgs.actionSteps args of None \<Rightarrow> [] | Some steps \<Rightarrow> steps);
         model = ChartArgs.model args;
         saveToMemory = (case ChartArgs.saveToMemory args of None \<Rightarrow> True | Some b \<Rightarrow> b)
     in
     case ChartArgs.desiredOutcome args of
       None \<Rightarrow> (Inl (Error (wave @ '' What specific positive outcome do you want to create? Focus on what you want to bring into being.'')), [])
     | Some outcome \<Rightarrow>
       if trim outcome = [] then (Inl (Error (wave @ '' What specific positive outcome do you want to create? Focus on what you want to bring into being.'')), [])
       else
       case ChartArgs.currentReality args of
         None \<Rightarrow> (Inl (Error (wave @ '' Where are you now in relation to this outcome? Describe your current situation objectively.'')), [])
       | Some reality \<Rightarrow>
         if trim reality = [] then (Inl (Error (wave @ '' Where are you now in relation to this outcome? Describe your current situation objectively.'')), [])
         else
         case validateChartElements env outcome reality dueDate of
           Some validationIssue \<Rightarrow> (Inr validationIssue, [])
         | None \<Rightarrow>
           let chart = \<lparr> TensionChart.id = chartId env,
                         TensionChart.desiredOutcome = outcome,
                         TensionChart.currentReality = reality,
                         TensionChart.dueDate = dueDate,
                         TensionChart.actionSteps = actionSteps,
                         TensionChart.createdAt = isoNow env \<rparr>;
               analysisPrompt =
     (buildTensionChartPrompt env chart @ nl @
     nl @
     ''**Analysis Request**:'' @ nl @
     ''Analyze this structural tension chart for:'' @ nl @
     ''1. **Creative Orientation Quality**: How well does the desired outcome focus on creation vs problem-solving?'' @ nl @
     ''2. **Current Reality Clarity**: How objective and specific is the current reality description?'' @ nl @
     ''3. **Structural Tension Strength**: How clear is the gap that will generate creative energy?'' @ nl @
     ''4. **Action Step Strategic Value**: How well do the action steps serve as intermediary outcomes?'' @ nl @
     ''5. **Advancement Potential**: What advancing patterns could this chart generate?'' @ nl @
     nl @
     ''Provide specific suggestions for strengthening any weak elements.'')
           in
           case executeGeminiCLI analysisPrompt model of
             Inl e \<Rightarrow> (Inl e, [(analysisPrompt, model)])
           | Inr result \<Rightarrow>
               let memoryNote = (if saveToMemory
                     then (nl @
     nl @
     wave @ '' **Memory Integration**: Chart structure ready for COAIA Memory persistence. Use `track-chart-progress` and `telescope-action` tools to continue working with this chart.'')
                     else (nl @
     nl @
     wave @ '' **Session Only**: Chart created for current session. Set saveToMemory=true to persist across sessions.''));
                   chartSummary =
     (nl @
     nl @
     ''---'' @ nl @
     nl @
     wave @ '' **CHART SUMMARY**'' @ nl @
     ''**ID**: '' @ TensionChart.id chart @ nl @
     ''**Outcome**: '' @ TensionChart.desiredOutcome chart @ nl @
     ''**Reality**: '' @ TensionChart.currentReality chart @ nl @
     ''**Due**: '' @ toLocaleDateString env (TensionChart.dueDate chart) @ nl @
     ''**Actions**: '' @ showNat (length (TensionChart.actionSteps chart)) @ '' strategic steps'')
               in (Inr (result @ memoryNote @ chartSummary), [(analysisPrompt, model)]))\<close>

section \<open>Fixtures\<close>

text \<open>An engine that answers every prompt with the prompt itself, for the concrete runs.\<close>

definition echoEngine :: engine where
  "echoEngine = (\<lambda>prompt model. Inr prompt)"


section \<open>Strings: substring, lower case, trimming\<close>

lemma str_includes_iff: "str_includes t w \<longleftrightarrow> (\<exists>p s. t = p @ w @ s)"
proof (induction t)
  case Nil
  then show ?case by auto
next
  case (Cons c cs)
  show ?case
  proof
    assume "str_includes (c # cs) w"
    then consider "prefix w (c # cs)" | "str_includes cs w" by auto
    then show "\<exists>p s. c # cs = p @ w @ s"
    proof cases
      case 1
      then obtain s where "c # cs = w @ s" by (auto simp: prefix_def)
      then have "c # cs = [] @ w @ s" by simp
      then show ?thesis by blast
    next
      case 2
      with Cons.IH obtain p s where "cs = p @ w @ s" by auto
      then have "c # cs = (c # p) @ w @ s" by simp
      then show ?thesis by blast
    qed
  next
    assume "\<exists>p s. c # cs = p @ w @ s"
    then obtain p s where ps: "c # cs = p @ w @ s" by auto
    show "str_includes (c # cs) w"
    proof (cases p)
      case Nil
      with ps have "prefix w (c # cs)" by (simp add: prefix_def)
      then show ?thesis by simp
    next
      case (Cons a p')
      with ps have "cs = p' @ w @ s" by simp
      with Cons.IH have "str_includes cs w" by blast
      then show ?thesis by simp
    qed
  qed
qed

lemma toLowerCase_append: "toLowerCase (a @ b) = toLowerCase a @ toLowerCase b"
  by (simp add: toLowerCase_def)

text \<open>
  A text holds a word in some letter case when a piece \<open>u\<close> of it lower-cases to the
  word; the lower-cased text then includes the word, which is the test of the source.
\<close>

lemma includes_lower_variant:
  "t = p @ u @ s \<Longrightarrow> toLowerCase u = w \<Longrightarrow> str_includes (toLowerCase t) w"
  unfolding str_includes_iff by (auto simp: toLowerCase_append)

lemma isWhiteSpace_not_upper: "isWhiteSpace c \<Longrightarrow> \<not> isUpperUnit c"
  by (auto simp: isWhiteSpace_def isUpperUnit_def)

lemma toLowerUnit_whiteSpace: "isWhiteSpace c \<Longrightarrow> toLowerUnit c = c"
  by (simp add: toLowerUnit_def isWhiteSpace_not_upper)

lemma trim_empty_iff: "trim s = [] \<longleftrightarrow> (\<forall>c \<in> set s. isWhiteSpace c)"
proof
  assume "trim s = []"
  then have a: "dropWhile isWhiteSpace (rev (dropWhile isWhiteSpace s)) = []"
    unfolding trim_def by (simp only: rev_is_Nil_conv)
  have "dropWhile isWhiteSpace s = []"
  proof (rule ccontr)
    assume ne: "dropWhile isWhiteSpace s \<noteq> []"
    then have "\<not> isWhiteSpace (hd (dropWhile isWhiteSpace s))"
      by (rule hd_dropWhile)
    moreover have "hd (dropWhile isWhiteSpace s) \<in> set (rev (dropWhile isWhiteSpace s))"
      using ne by simp
    ultimately show False
      using a unfolding dropWhile_eq_Nil_conv by blast
  qed
  then show "\<forall>c \<in> set s. isWhiteSpace c"
    unfolding dropWhile_eq_Nil_conv .
next
  assume "\<forall>c \<in> set s. isWhiteSpace c"
  then have h: "dropWhile isWhiteSpace s = []"
    unfolding dropWhile_eq_Nil_conv .
  show "trim s = []" unfolding trim_def h by simp
qed

text \<open>A text whose lower case includes a word with a visible character is not blank.\<close>

lemma includes_lower_not_blank:
  assumes "str_includes (toLowerCase t) w" and "c \<in> set w" and "\<not> isWhiteSpace c"
  shows "trim t \<noteq> []"
proof -
  from assms(1) obtain p s where "toLowerCase t = p @ w @ s"
    unfolding str_includes_iff by blast
  with assms(2) have "c \<in> set (toLowerCase t)" by simp
  then obtain c' where c': "c' \<in> set t" "toLowerUnit c' = c"
    by (auto simp: toLowerCase_def)
  have "\<not> isWhiteSpace c'"
  proof
    assume "isWhiteSpace c'"
    with c'(2) assms(3) show False by (simp add: toLowerUnit_whiteSpace)
  qed
  with c'(1) show ?thesis by (auto simp: trim_empty_iff)
qed

section \<open>Quality scores and structural tension\<close>

lemma clamp_bounds: "(1::int) \<le> max 1 (min 10 x) \<and> max 1 (min 10 x) \<le> 10"
  by simp

lemma analyzeVisionQuality_bounds:
  "1 \<le> analyzeVisionQuality v \<and> analyzeVisionQuality v \<le> 10"
  unfolding analyzeVisionQuality_def Let_def by (rule clamp_bounds)

lemma analyzeRealityQuality_bounds:
  "1 \<le> analyzeRealityQuality r \<and> analyzeRealityQuality r \<le> 10"
  unfolding analyzeRealityQuality_def Let_def by (rule clamp_bounds)

text \<open>
  Claim C1. For every vision string and every reality string, the tension computed by
  \<open>calculateStructuralTension\<close> is the minimum of the vision quality score and the
  reality quality score, and both scores are integers between 1 and 10.
\<close>

theorem C1_tension_is_min_of_bounded_scores:
  "StructuralTension.tension (calculateStructuralTension v r)
      = min (analyzeVisionQuality v) (analyzeRealityQuality r)
    \<and> 1 \<le> analyzeVisionQuality v \<and> analyzeVisionQuality v \<le> 10
    \<and> 1 \<le> analyzeRealityQuality r \<and> analyzeRealityQuality r \<le> 10"
  using analyzeVisionQuality_bounds [of v] analyzeRealityQuality_bounds [of r]
  by (simp add: calculateStructuralTension_def Let_def)

text \<open>
  Claim C7. Every keyword check of the vision scorer is to be a case-insensitive substring
  test, so that a vision holding \<open>create\<close>, \<open>build\<close> or \<open>achieve\<close> in any letter case
  earns the +1 of that check. The check for these three words alone reads the text
  without lower-casing it: the capitalised vision below scores 7, the same vision in
  lower case scores 8.
\<close>

theorem C7_capitalised_create_earns_nothing:
  "analyzeVisionQuality ''Create a garden'' = 7
   \<and> analyzeVisionQuality ''create a garden'' = 8"
  by code_simp

section \<open>The gate and the phases of the create tool\<close>

text \<open>
  The redirect of the gate is never the empty string, so the test \<open>if (problemRedirect)\<close>
  of the source holds exactly when the gate returned a redirect; and the redirect holds the
  detected words, joined by a comma and a space.
\<close>

lemma gate_redirect_not_empty: "gate_redirect ws \<noteq> []"
  by (simp add: gate_redirect_def wave_def)




lemma detectProblemSolvingLanguage_truthy:
  "detectProblemSolvingLanguage t = Some r \<Longrightarrow> r \<noteq> []"
  by (auto simp: detectProblemSolvingLanguage_def Let_def gate_redirect_not_empty
      split: if_splits)

lemma detectProblemSolvingLanguage_None_iff:
  "detectProblemSolvingLanguage t = None \<longleftrightarrow> gate_detectedWords t = []"
  by (simp add: detectProblemSolvingLanguage_def Let_def)







text \<open>The three phases of a request that passed the gate and has no current reality.\<close>

lemma createTool_assimilation_blank:
  assumes "CreateArgs.desiredOutcome args = Some d"
    and "trim d \<noteq> []"
    and "detectProblemSolvingLanguage d = None"
    and "isBlank (CreateArgs.currentReality args)"
    and "CreateArgs.creativePhase args = Some ''assimilation''"
  shows "createTool_execute executeGeminiCLI args =
    (Inl (Error ''Assimilation phase requires both your vision AND current reality to establish structural tension.''), [])"
  by (simp add: createTool_execute_def Let_def assms)

lemma createTool_completion_blank:
  assumes "CreateArgs.desiredOutcome args = Some d"
    and "trim d \<noteq> []"
    and "detectProblemSolvingLanguage d = None"
    and "isBlank (CreateArgs.currentReality args)"
    and "CreateArgs.creativePhase args = Some ''completion''"
  shows "createTool_execute executeGeminiCLI args =
    (Inl (Error ''Completion phase requires understanding where you are now in relation to your original vision.''), [])"
  by (simp add: createTool_execute_def Let_def assms)

lemma createTool_germination:
  assumes "CreateArgs.desiredOutcome args = Some d"
    and "trim d \<noteq> []"
    and "detectProblemSolvingLanguage d = None"
    and ph: "CreateArgs.creativePhase args = Some ''germination''
             \<or> CreateArgs.creativePhase args = None"
  shows "createTool_execute executeGeminiCLI args =
    (executeGeminiCLI
       (buildGerminationPrompt d (CreateArgs.currentReality args)
          (CreateArgs.timeframe args) (CreateArgs.resources args))
       (CreateArgs.model args),
     [(buildGerminationPrompt d (CreateArgs.currentReality args)
          (CreateArgs.timeframe args) (CreateArgs.resources args),
       CreateArgs.model args)])"
proof -
  from ph have p:
    "(case CreateArgs.creativePhase args of None \<Rightarrow> ''germination'' | Some phase \<Rightarrow> phase)
       = ''germination''"
    by auto
  show ?thesis
    by (cases "executeGeminiCLI
                 (buildGerminationPrompt d (CreateArgs.currentReality args)
                    (CreateArgs.timeframe args) (CreateArgs.resources args))
                 (CreateArgs.model args)")
       (simp_all add: createTool_execute_def Let_def assms(1-3) p)
qed

text \<open>
  Claim C2, as the code has it. The gate comes before the phases, and the tool refuses a
  blank desired outcome in every phase. For a request whose desired outcome is not blank
  and holds none of the gate's words, and whose current reality is absent, empty or white
  space only: in the phases assimilation and completion the operation fails with the
  validation error of the phase and makes no call to the engine; in the phase germination
  (also when the phase is left out) it builds the germination prompt, hands it to the
  engine once, and returns what the engine returns.
\<close>

theorem C2_phase_gating_after_gate:
  assumes "CreateArgs.desiredOutcome args = Some d"
    and "trim d \<noteq> []"
    and "gate_detectedWords d = []"
    and "isBlank (CreateArgs.currentReality args)"
  shows "(CreateArgs.creativePhase args = Some ''assimilation'' \<longrightarrow>
            createTool_execute executeGeminiCLI args =
              (Inl (Error ''Assimilation phase requires both your vision AND current reality to establish structural tension.''), []))
       \<and> (CreateArgs.creativePhase args = Some ''completion'' \<longrightarrow>
            createTool_execute executeGeminiCLI args =
              (Inl (Error ''Completion phase requires understanding where you are now in relation to your original vision.''), []))
       \<and> (CreateArgs.creativePhase args = Some ''germination''
            \<or> CreateArgs.creativePhase args = None \<longrightarrow>
            createTool_execute executeGeminiCLI args =
              (executeGeminiCLI
                 (buildGerminationPrompt d (CreateArgs.currentReality args)
                    (CreateArgs.timeframe args) (CreateArgs.resources args))
                 (CreateArgs.model args),
               [(buildGerminationPrompt d (CreateArgs.currentReality args)
                    (CreateArgs.timeframe args) (CreateArgs.resources args),
                 CreateArgs.model args)]))"
proof -
  have gate: "detectProblemSolvingLanguage d = None"
    using assms(3) by (simp add: detectProblemSolvingLanguage_None_iff)
  show ?thesis
    using createTool_assimilation_blank [OF assms(1,2) gate assms(4), of executeGeminiCLI]
      createTool_completion_blank [OF assms(1,2) gate assms(4), of executeGeminiCLI]
      createTool_germination [OF assms(1,2) gate, of executeGeminiCLI]
    by blast
qed

theorem C2_phase_gating_after_gate_witness:
  "createTool_execute echoEngine
      \<lparr> CreateArgs.desiredOutcome = Some ''Open a bakery'',
        CreateArgs.currentReality = Some ''  '',
        CreateArgs.creativePhase = Some ''assimilation'',
        CreateArgs.model = None,
        CreateArgs.timeframe = None,
        CreateArgs.resources = None \<rparr>
     = (Inl (Error ''Assimilation phase requires both your vision AND current reality to establish structural tension.''), [])
   \<and> createTool_execute echoEngine
      \<lparr> CreateArgs.desiredOutcome = Some ''Open a bakery'',
        CreateArgs.currentReality = None,
        CreateArgs.creativePhase = Some ''completion'',
        CreateArgs.model = None,
        CreateArgs.timeframe = None,
        CreateArgs.resources = None \<rparr>
     = (Inl (Error ''Completion phase requires understanding where you are now in relation to your original vision.''), [])
   \<and> createTool_execute echoEngine
      \<lparr> CreateArgs.desiredOutcome = Some ''Open a bakery'',
        CreateArgs.currentReality = Some [],
        CreateArgs.creativePhase = Some ''germination'',
        CreateArgs.model = None,
        CreateArgs.timeframe = None,
        CreateArgs.resources = None \<rparr>
     = (Inr (buildGerminationPrompt ''Open a bakery'' (Some []) None None),
        [(buildGerminationPrompt ''Open a bakery'' (Some []) None None, None)])"
proof -
  have h2: "trim ''Open a bakery'' \<noteq> []" by code_simp
  have h3: "gate_detectedWords ''Open a bakery'' = []" by code_simp
  have b1: "isBlank (Some ''  '')" by code_simp
  have b2: "isBlank None" by simp
  have b3: "isBlank (Some [])" by code_simp
  show ?thesis
    using
      C2_phase_gating_after_gate [of "\<lparr> CreateArgs.desiredOutcome = Some ''Open a bakery'',
        CreateArgs.currentReality = Some ''  '',
        CreateArgs.creativePhase = Some ''assimilation'',
        CreateArgs.model = None,
        CreateArgs.timeframe = None,
        CreateArgs.resources = None \<rparr>" "''Open a bakery''" echoEngine]
      C2_phase_gating_after_gate [of "\<lparr> CreateArgs.desiredOutcome = Some ''Open a bakery'',
        CreateArgs.currentReality = None,
        CreateArgs.creativePhase = Some ''completion'',
        CreateArgs.model = None,
        CreateArgs.timeframe = None,
        CreateArgs.resources = None \<rparr>" "''Open a bakery''" echoEngine]
      C2_phase_gating_after_gate [of "\<lparr> CreateArgs.desiredOutcome = Some ''Open a bakery'',
        CreateArgs.currentReality = Some [],
        CreateArgs.creativePhase = Some ''germination'',
        CreateArgs.model = None,
        CreateArgs.timeframe = None,
        CreateArgs.resources = None \<rparr>" "''Open a bakery''" echoEngine]
      h2 h3 b1 b2 b3
    by (simp add: echoEngine_def)
qed

text \<open>
  Claim C2 as the specification states it fails: a request in the phase assimilation with
  no current reality, whose desired outcome holds the word \<open>fix\<close>, does not fail; it
  returns the redirect of the gate.
\<close>

theorem C2_counterexample:
  "\<not> isl (fst (createTool_execute echoEngine
      \<lparr> CreateArgs.desiredOutcome = Some ''fix it'',
        CreateArgs.currentReality = None,
        CreateArgs.creativePhase = Some ''assimilation'',
        CreateArgs.model = None,
        CreateArgs.timeframe = None,
        CreateArgs.resources = None \<rparr>))"
  by code_simp

section \<open>The bias classifier\<close>

lemma allDetected_empty_iff:
  "allDetected t = [] \<longleftrightarrow>
     detectedProblems t = [] \<and> detectedGaps t = [] \<and> detectedStructures t = []"
  by (simp add: allDetected_def)

text \<open>
  The words \<open>improve\<close> and \<open>enhance\<close> are in the problem-solving list, so a text that
  holds one of them has a problem-solving match.
\<close>

lemma improve_is_problem_word:
  "str_includes (toLowerCase t) ''improve'' \<or> str_includes (toLowerCase t) ''enhance''
    \<Longrightarrow> detectedProblems t \<noteq> []"
  by (auto simp: detectedProblems_def problemSolvingWords_def filter_empty_conv)

lemma biasType_problems:
  "detectedProblems t \<noteq> [] \<Longrightarrow> biasType (detectReactivePatterns t) = ProblemSolving"
  by (simp add: detectReactivePatterns_def Let_def split_def allDetected_def)

lemma biasType_gaps:
  "detectedProblems t = [] \<Longrightarrow> detectedGaps t \<noteq> []
     \<Longrightarrow> biasType (detectReactivePatterns t) = GapFilling"
  by (simp add: detectReactivePatterns_def Let_def split_def allDetected_def)

lemma biasType_structures:
  "detectedProblems t = [] \<Longrightarrow> detectedGaps t = [] \<Longrightarrow> detectedStructures t \<noteq> []
     \<Longrightarrow> biasType (detectReactivePatterns t) = Reactive"
  using improve_is_problem_word [of t]
  by (auto simp: detectReactivePatterns_def Let_def split_def allDetected_def)

text \<open>
  Claim C4. For every text, the analysis of the classifier has \<open>hasBias\<close> false exactly
  when \<open>detectedPatterns\<close> is the empty list, and that exactly when \<open>biasType\<close> is
  \<open>none\<close>.
\<close>

theorem C4_no_bias_iff_no_pattern_iff_none:
  "(\<not> hasBias (detectReactivePatterns t)) = (detectedPatterns (detectReactivePatterns t) = [])
   \<and> (detectedPatterns (detectReactivePatterns t) = [])
       = (biasType (detectReactivePatterns t) = NoBias)"
  by (simp add: detectReactivePatterns_def Let_def split_def)

text \<open>
  Claim C5, as the code has it. For a text with at least one detected pattern the severity
  follows the number of matches of the selected category only for the types
  problem-solving and gap-filling: more than 3 matches give high, more than 1 and at most
  3 give medium, otherwise low. When the selected type is reactive the severity is low,
  however many structural phrases matched.
\<close>

theorem C5_severity_by_selected_category:
  "(detectedProblems t \<noteq> [] \<longrightarrow>
      biasType (detectReactivePatterns t) = ProblemSolving
      \<and> severity (detectReactivePatterns t) =
          (if length (detectedProblems t) > 3 then High
           else if length (detectedProblems t) > 1 then Medium else Low))
   \<and> (detectedProblems t = [] \<and> detectedGaps t \<noteq> [] \<longrightarrow>
      biasType (detectReactivePatterns t) = GapFilling
      \<and> severity (detectReactivePatterns t) =
          (if length (detectedGaps t) > 3 then High
           else if length (detectedGaps t) > 1 then Medium else Low))
   \<and> (detectedProblems t = [] \<and> detectedGaps t = [] \<and> detectedStructures t \<noteq> [] \<longrightarrow>
      biasType (detectReactivePatterns t) = Reactive
      \<and> severity (detectReactivePatterns t) = Low)"
proof -
  have p: "detectedProblems t \<noteq> [] \<Longrightarrow>
      severity (detectReactivePatterns t) =
          (if length (detectedProblems t) > 3 then High
           else if length (detectedProblems t) > 1 then Medium else Low)"
    by (simp add: detectReactivePatterns_def Let_def split_def allDetected_def)
  have g: "detectedProblems t = [] \<Longrightarrow> detectedGaps t \<noteq> [] \<Longrightarrow>
      severity (detectReactivePatterns t) =
          (if length (detectedGaps t) > 3 then High
           else if length (detectedGaps t) > 1 then Medium else Low)"
    by (simp add: detectReactivePatterns_def Let_def split_def allDetected_def)
  have s: "detectedProblems t = [] \<Longrightarrow> detectedGaps t = [] \<Longrightarrow> detectedStructures t \<noteq> [] \<Longrightarrow>
      severity (detectReactivePatterns t) = Low"
    using improve_is_problem_word [of t]
    by (auto simp: detectReactivePatterns_def Let_def split_def allDetected_def)
  from p g s biasType_problems [of t] biasType_gaps [of t] biasType_structures [of t]
  show ?thesis by blast
qed

theorem C5_severity_by_selected_category_witness:
  "biasType (detectReactivePatterns ''Fix the issue, solve the problem'') = ProblemSolving
   \<and> severity (detectReactivePatterns ''Fix the issue, solve the problem'') = High
   \<and> biasType (detectReactivePatterns ''fix and solve'') = ProblemSolving
   \<and> severity (detectReactivePatterns ''fix and solve'') = Medium
   \<and> biasType (detectReactivePatterns ''mind the gap'') = GapFilling
   \<and> severity (detectReactivePatterns ''mind the gap'') = Low
   \<and> biasType (detectReactivePatterns ''how to grow'') = Reactive
   \<and> severity (detectReactivePatterns ''how to grow'') = Low"
proof -
  have a: "detectedProblems ''Fix the issue, solve the problem''
             = [''problem'', ''issue'', ''fix'', ''solve'']"
    by code_simp
  have b: "detectedProblems ''fix and solve'' = [''fix'', ''solve'']"
    by code_simp
  have c: "detectedProblems ''mind the gap'' = []" "detectedGaps ''mind the gap'' = [''gap'']"
    by code_simp+
  have d: "detectedProblems ''how to grow'' = []" "detectedGaps ''how to grow'' = []"
    "detectedStructures ''how to grow'' = [''how to'']"
    by code_simp+
  show ?thesis
    using C5_severity_by_selected_category [of "''Fix the issue, solve the problem''"]
      C5_severity_by_selected_category [of "''fix and solve''"]
      C5_severity_by_selected_category [of "''mind the gap''"]
      C5_severity_by_selected_category [of "''how to grow''"]
    by (simp add: a b c d)
qed

text \<open>
  Claim C5 as the specification states it fails for the type reactive: four structural
  phrases match and no word of the other two lists, the type is reactive, and the
  severity is low, not high.
\<close>

theorem C5_counterexample:
  "biasType (detectReactivePatterns ''how to, ways to, steps to, methods for'') = Reactive
   \<and> length (detectedStructures ''how to, ways to, steps to, methods for'') = 4
   \<and> severity (detectReactivePatterns ''how to, ways to, steps to, methods for'') = Low"
  by code_simp

text \<open>
  Claim C6. A text that holds \<open>improve\<close> and also a gap-filling word is to be classified
  as gap-filling, that category coming before enhancement in the priority order. The
  source tests \<open>improve\<close> and \<open>enhance\<close> for the type enhancement after the gap-filling
  branch, and lists the same two words among the problem-solving words, which come first:
  the text below matches \<open>gap\<close> in the gap-filling list and \<open>improve\<close> in the
  problem-solving list only, and its type is problem-solving, not gap-filling.
\<close>

theorem C6_improve_the_gap_is_problem_solving:
  "detectedProblems ''improve the gap'' = [''improve'']
   \<and> detectedGaps ''improve the gap'' = [''gap'']
   \<and> biasType (detectReactivePatterns ''improve the gap'') = ProblemSolving
   \<and> biasType (detectReactivePatterns ''improve the gap'') \<noteq> GapFilling"
proof -
  have p: "detectedProblems ''improve the gap'' = [''improve'']" by code_simp
  have g: "detectedGaps ''improve the gap'' = [''gap'']" by code_simp
  from p have "biasType (detectReactivePatterns ''improve the gap'') = ProblemSolving"
    by (simp add: biasType_problems)
  with p g show ?thesis by simp
qed

text \<open>
  Claim C9. For every text the classifier never returns the type enhancement: a text
  that holds \<open>improve\<close> or \<open>enhance\<close> has a match in the problem-solving list and is
  classified as problem-solving before the enhancement branch is reached.
\<close>

theorem C9_enhancement_is_unreachable:
  "biasType (detectReactivePatterns t) \<noteq> Enhancement
   \<and> (str_includes (toLowerCase t) ''improve'' \<or> str_includes (toLowerCase t) ''enhance''
        \<longrightarrow> biasType (detectReactivePatterns t) = ProblemSolving)"
proof -
  have "biasType (detectReactivePatterns t) \<noteq> Enhancement"
    using improve_is_problem_word [of t]
    by (auto simp: detectReactivePatterns_def Let_def split_def)
  moreover have "str_includes (toLowerCase t) ''improve'' \<or> str_includes (toLowerCase t) ''enhance''
        \<Longrightarrow> biasType (detectReactivePatterns t) = ProblemSolving"
    by (rule biasType_problems) (rule improve_is_problem_word)
  ultimately show ?thesis by blast
qed

theorem C9_enhancement_is_unreachable_witness:
  "biasType (detectReactivePatterns ''Enhance my garden'') \<noteq> Enhancement
   \<and> biasType (detectReactivePatterns ''Enhance my garden'') = ProblemSolving"
proof -
  have h: "str_includes (toLowerCase ''Enhance my garden'') ''enhance''" by code_simp
  show ?thesis
    using C9_enhancement_is_unreachable [of "''Enhance my garden''"] h by simp
qed

text \<open>
  Claim C10. The \<open>focus\<close> argument of the bias detector has no effect: for every request
  and any two values of \<open>focus\<close>, the analysis of the text is the same and the whole
  outcome of the tool (the report, and with it the report without auto-correction, and the
  calls to the engine) is the same.
\<close>

theorem C10_focus_has_no_effect:
  "map_option detectReactivePatterns (BiasArgs.text (args\<lparr>focus := f1\<rparr>))
     = map_option detectReactivePatterns (BiasArgs.text (args\<lparr>focus := f2\<rparr>))
   \<and> biasDetectorTool_execute executeGeminiCLI (args\<lparr>focus := f1\<rparr>)
     = biasDetectorTool_execute executeGeminiCLI (args\<lparr>focus := f2\<rparr>)"
  by (simp add: biasDetectorTool_execute_def)

theorem C10_focus_has_no_effect_witness:
  "biasDetectorTool_execute echoEngine
      \<lparr> BiasArgs.text = Some ''how to grow'', BiasArgs.autoCorrect = None,
        BiasArgs.focus = Some ''gap-filling'', BiasArgs.model = None \<rparr>
   = biasDetectorTool_execute echoEngine
      \<lparr> BiasArgs.text = Some ''how to grow'', BiasArgs.autoCorrect = None,
        BiasArgs.focus = Some ''all'', BiasArgs.model = None \<rparr>"
  using C10_focus_has_no_effect [where args =
      "\<lparr> BiasArgs.text = Some ''how to grow'', BiasArgs.autoCorrect = None,
        BiasArgs.focus = None, BiasArgs.model = None \<rparr>"
      and ?f1.0 = "Some ''gap-filling''" and ?f2.0 = "Some ''all''"
      and executeGeminiCLI = echoEngine]
  by simp

section \<open>The chart validator\<close>

lemma chart_problem_word_hd:
  "w \<in> set chart_problemWords \<Longrightarrow> w \<noteq> [] \<and> \<not> isWhiteSpace (hd w)"
  unfolding chart_problemWords_def isWhiteSpace_def by auto

lemma chart_action_word_hd:
  "w \<in> set chart_actionWords \<Longrightarrow> w \<noteq> [] \<and> \<not> isWhiteSpace (hd w)"
  unfolding chart_actionWords_def isWhiteSpace_def by auto

lemma includes_word_not_blank:
  assumes "str_includes (toLowerCase t) w" and "w \<noteq> [] \<and> \<not> isWhiteSpace (hd w)"
  shows "trim t \<noteq> []"
proof -
  from assms(2) have "hd w \<in> set w" and "\<not> isWhiteSpace (hd w)" by simp_all
  with assms(1) show ?thesis by (rule includes_lower_not_blank)
qed

text \<open>The four violations are different texts: their headings differ.\<close>

lemma outcomeViolation_neq_realityViolation:
  "outcomeViolation xs \<noteq> realityViolation ys"
  by (simp add: outcomeViolation_def realityViolation_def wave_def)

lemma outcomeViolation_neq_date:
  "outcomeViolation xs \<noteq> dateFormatViolation \<and> outcomeViolation xs \<noteq> datePastViolation"
  by (simp add: outcomeViolation_def dateFormatViolation_def datePastViolation_def wave_def)

lemma realityViolation_neq_date:
  "realityViolation ys \<noteq> dateFormatViolation \<and> realityViolation ys \<noteq> datePastViolation"
  by (simp add: realityViolation_def dateFormatViolation_def datePastViolation_def wave_def)

lemma dateFormatViolation_neq_datePastViolation:
  "dateFormatViolation \<noteq> datePastViolation"
  by (simp add: dateFormatViolation_def datePastViolation_def wave_def)

text \<open>
  A violation is never the empty string, so the test \<open>if (validationIssue)\<close> of the
  source holds exactly when the validator returned a violation.
\<close>

lemma validateChartElements_truthy:
  "validateChartElements env d r due = Some v \<Longrightarrow> v \<noteq> []"
  by (auto simp: validateChartElements_def Let_def outcomeViolation_def realityViolation_def
      dateFormatViolation_def datePastViolation_def wave_def split: if_splits option.splits)

text \<open>The five outcomes of the validator, each under the failure of the rules before it.\<close>

lemma validate_rule1:
  "chart_detectedProblems d \<noteq> [] \<Longrightarrow>
     validateChartElements env d r due = Some (outcomeViolation (chart_detectedProblems d))"
  by (simp add: validateChartElements_def Let_def)

lemma validate_rule2:
  "chart_detectedProblems d = [] \<Longrightarrow> chart_detectedActions r \<noteq> [] \<Longrightarrow>
     validateChartElements env d r due = Some (realityViolation (chart_detectedActions r))"
  by (simp add: validateChartElements_def Let_def)

lemma validate_rule3:
  "chart_detectedProblems d = [] \<Longrightarrow> chart_detectedActions r = [] \<Longrightarrow>
     parseDate env due = None \<Longrightarrow>
     validateChartElements env d r due = Some dateFormatViolation"
  by (simp add: validateChartElements_def Let_def)

lemma validate_rule4:
  "chart_detectedProblems d = [] \<Longrightarrow> chart_detectedActions r = [] \<Longrightarrow>
     parseDate env due = Some t \<Longrightarrow> t < now env \<Longrightarrow>
     validateChartElements env d r due = Some datePastViolation"
  by (simp add: validateChartElements_def Let_def)

lemma validate_pass:
  "chart_detectedProblems d = [] \<Longrightarrow> chart_detectedActions r = [] \<Longrightarrow>
     parseDate env due = Some t \<Longrightarrow> \<not> t < now env \<Longrightarrow>
     validateChartElements env d r due = None"
  by (simp add: validateChartElements_def Let_def)

text \<open>The tool returns the violation of the validator and does not call the engine.\<close>

lemma createTensionChartTool_violation:
  assumes "ChartArgs.desiredOutcome args = Some d" and "trim d \<noteq> []"
    and "ChartArgs.currentReality args = Some r" and "trim r \<noteq> []"
    and "validateChartElements env d r (ChartArgs.dueDate args) = Some v"
  shows "createTensionChartTool_execute env executeGeminiCLI args = (Inr v, [])"
  by (simp add: createTensionChartTool_execute_def Let_def assms)

text \<open>
  Claim C8. The chart validator runs its rules in a fixed order and returns the first
  violation it finds, the later rules having no say: a problem word in the desired outcome
  gives the outcome-wording violation (rule 1); failing that, an obligation word in the
  current reality gives the reality-wording violation (rule 2); failing that, a due date
  that does not parse gives the format violation (rule 3); failing that, a due date before
  the clock gives the past-date violation (rule 4); failing all four, there is no
  violation. The four violations are different texts. In particular, for every
  chart-creation request whose desired outcome holds a problem word (fix, solve, eliminate,
  prevent, stop, avoid, reduce) and whose current reality holds an obligation word (need
  to, should, must, will, plan to, going to), each in any letter case, both wording rules
  have a match, and the validator returns the outcome-wording violation with the problem
  words it found, never the reality-wording violation, whatever the due date, the clock
  and the date parser are; the tool returns that violation and makes no call to the engine.
\<close>

theorem C8_first_violation_in_fixed_order:
  "(chart_detectedProblems d \<noteq> [] \<longrightarrow>
      validateChartElements env d r due = Some (outcomeViolation (chart_detectedProblems d)))
   \<and> (chart_detectedProblems d = [] \<and> chart_detectedActions r \<noteq> [] \<longrightarrow>
      validateChartElements env d r due = Some (realityViolation (chart_detectedActions r)))
   \<and> (chart_detectedProblems d = [] \<and> chart_detectedActions r = []
        \<and> parseDate env due = None \<longrightarrow>
      validateChartElements env d r due = Some dateFormatViolation)
   \<and> (chart_detectedProblems d = [] \<and> chart_detectedActions r = []
        \<and> parseDate env due = Some t \<and> t < now env \<longrightarrow>
      validateChartElements env d r due = Some datePastViolation)
   \<and> (chart_detectedProblems d = [] \<and> chart_detectedActions r = []
        \<and> parseDate env due = Some t \<and> \<not> t < now env \<longrightarrow>
      validateChartElements env d r due = None)
   \<and> (\<forall>xs ys. outcomeViolation xs \<noteq> realityViolation ys
          \<and> outcomeViolation xs \<noteq> dateFormatViolation
          \<and> outcomeViolation xs \<noteq> datePastViolation
          \<and> realityViolation ys \<noteq> dateFormatViolation
          \<and> realityViolation ys \<noteq> datePastViolation
          \<and> dateFormatViolation \<noteq> datePastViolation)
   \<and> (w \<in> set [''fix'', ''solve'', ''eliminate'', ''prevent'', ''stop'', ''avoid'', ''reduce'']
        \<and> d = p @ u @ s \<and> toLowerCase u = w
        \<and> a \<in> set [''need to'', ''should'', ''must'', ''will'', ''plan to'', ''going to'']
        \<and> r = p' @ u' @ s' \<and> toLowerCase u' = a \<longrightarrow>
      w \<in> set (chart_detectedProblems d) \<and> a \<in> set (chart_detectedActions r)
      \<and> validateChartElements env d r due = Some (outcomeViolation (chart_detectedProblems d))
      \<and> (\<forall>detected. validateChartElements env d r due \<noteq> Some (realityViolation detected))
      \<and> (ChartArgs.desiredOutcome args = Some d \<and> ChartArgs.currentReality args = Some r \<longrightarrow>
           createTensionChartTool_execute env executeGeminiCLI args =
             (Inr (outcomeViolation (chart_detectedProblems d)), [])))"
proof -
  have distinct: "\<forall>xs ys. outcomeViolation xs \<noteq> realityViolation ys
          \<and> outcomeViolation xs \<noteq> dateFormatViolation
          \<and> outcomeViolation xs \<noteq> datePastViolation
          \<and> realityViolation ys \<noteq> dateFormatViolation
          \<and> realityViolation ys \<noteq> datePastViolation
          \<and> dateFormatViolation \<noteq> datePastViolation"
    using outcomeViolation_neq_realityViolation outcomeViolation_neq_date
      realityViolation_neq_date dateFormatViolation_neq_datePastViolation
    by blast
  have both: "w \<in> set (chart_detectedProblems d) \<and> a \<in> set (chart_detectedActions r)
      \<and> validateChartElements env d r due = Some (outcomeViolation (chart_detectedProblems d))
      \<and> (\<forall>detected. validateChartElements env d r due \<noteq> Some (realityViolation detected))
      \<and> (ChartArgs.desiredOutcome args = Some d \<and> ChartArgs.currentReality args = Some r \<longrightarrow>
           createTensionChartTool_execute env executeGeminiCLI args =
             (Inr (outcomeViolation (chart_detectedProblems d)), []))"
    if h: "w \<in> set [''fix'', ''solve'', ''eliminate'', ''prevent'', ''stop'', ''avoid'', ''reduce'']"
      "d = p @ u @ s" "toLowerCase u = w"
      "a \<in> set [''need to'', ''should'', ''must'', ''will'', ''plan to'', ''going to'']"
      "r = p' @ u' @ s'" "toLowerCase u' = a"
  proof -
    have wm: "w \<in> set chart_problemWords"
      using h(1) by (simp add: chart_problemWords_def)
    have am: "a \<in> set chart_actionWords"
      using h(4) by (simp add: chart_actionWords_def)
    have wi: "str_includes (toLowerCase d) w"
      using h(2,3) by (rule includes_lower_variant)
    have ai: "str_includes (toLowerCase r) a"
      using h(5,6) by (rule includes_lower_variant)
    have wd: "w \<in> set (chart_detectedProblems d)"
      using wm wi by (simp add: chart_detectedProblems_def)
    have ad: "a \<in> set (chart_detectedActions r)"
      using am ai by (simp add: chart_detectedActions_def)
    from wd have ne: "chart_detectedProblems d \<noteq> []" by auto
    have v: "validateChartElements env d r x
               = Some (outcomeViolation (chart_detectedProblems d))" for x
      using ne by (rule validate_rule1)
    have dn: "trim d \<noteq> []"
      using wi chart_problem_word_hd [OF wm] by (rule includes_word_not_blank)
    have rn: "trim r \<noteq> []"
      using ai chart_action_word_hd [OF am] by (rule includes_word_not_blank)
    have e: "createTensionChartTool_execute env executeGeminiCLI args =
             (Inr (outcomeViolation (chart_detectedProblems d)), [])"
      if "ChartArgs.desiredOutcome args = Some d" "ChartArgs.currentReality args = Some r"
      using that(1) dn that(2) rn v by (rule createTensionChartTool_violation)
    from wd ad v [of due] e outcomeViolation_neq_realityViolation show ?thesis
      by simp
  qed
  from distinct both validate_rule1 [of d env r due] validate_rule2 [of d r env due]
    validate_rule3 [of d r env due] validate_rule4 [of d r env due t]
    validate_pass [of d r env due t]
  show ?thesis by blast
qed

theorem C8_first_violation_in_fixed_order_witness:
  "validateChartElements
      \<lparr> parseDate = (\<lambda>s. None), now = 10, chartId = ''chart_0_abc'', isoNow = [],
        toLocaleString = (\<lambda>s. s), toLocaleDateString = (\<lambda>s. s) \<rparr>
      ''Fix our process'' ''We should talk more'' ''tomorrow''
     = Some (outcomeViolation [''fix''])
   \<and> createTensionChartTool_execute
      \<lparr> parseDate = (\<lambda>s. None), now = 10, chartId = ''chart_0_abc'', isoNow = [],
        toLocaleString = (\<lambda>s. s), toLocaleDateString = (\<lambda>s. s) \<rparr>
      echoEngine
      \<lparr> ChartArgs.desiredOutcome = Some ''Fix our process'',
        ChartArgs.currentReality = Some ''We should talk more'',
        ChartArgs.dueDate = ''tomorrow'',
        ChartArgs.actionSteps = None,
        ChartArgs.model = None,
        ChartArgs.saveToMemory = None \<rparr>
     = (Inr (outcomeViolation [''fix'']), [])
   \<and> validateChartElements
      \<lparr> parseDate = (\<lambda>s. None), now = 10, chartId = ''chart_0_abc'', isoNow = [],
        toLocaleString = (\<lambda>s. s), toLocaleDateString = (\<lambda>s. s) \<rparr>
      ''Open a bakery'' ''We should talk more'' ''tomorrow''
     = Some (realityViolation [''should''])
   \<and> validateChartElements
      \<lparr> parseDate = (\<lambda>s. None), now = 10, chartId = ''chart_0_abc'', isoNow = [],
        toLocaleString = (\<lambda>s. s), toLocaleDateString = (\<lambda>s. s) \<rparr>
      ''Open a bakery'' ''An empty shop'' ''tomorrow''
     = Some dateFormatViolation
   \<and> validateChartElements
      \<lparr> parseDate = (\<lambda>s. Some 5), now = 10, chartId = ''chart_0_abc'', isoNow = [],
        toLocaleString = (\<lambda>s. s), toLocaleDateString = (\<lambda>s. s) \<rparr>
      ''Open a bakery'' ''An empty shop'' ''2020-01-01''
     = Some datePastViolation
   \<and> validateChartElements
      \<lparr> parseDate = (\<lambda>s. Some 20), now = 10, chartId = ''chart_0_abc'', isoNow = [],
        toLocaleString = (\<lambda>s. s), toLocaleDateString = (\<lambda>s. s) \<rparr>
      ''Open a bakery'' ''An empty shop'' ''2999-01-01''
     = None"
proof -
  let ?E = "\<lparr> parseDate = (\<lambda>s. None), now = 10, chartId = ''chart_0_abc'', isoNow = [],
        toLocaleString = (\<lambda>s. s), toLocaleDateString = (\<lambda>s. s) \<rparr>"
  let ?E5 = "\<lparr> parseDate = (\<lambda>s. Some 5), now = 10, chartId = ''chart_0_abc'', isoNow = [],
        toLocaleString = (\<lambda>s. s), toLocaleDateString = (\<lambda>s. s) \<rparr>"
  let ?E20 = "\<lparr> parseDate = (\<lambda>s. Some 20), now = 10, chartId = ''chart_0_abc'', isoNow = [],
        toLocaleString = (\<lambda>s. s), toLocaleDateString = (\<lambda>s. s) \<rparr>"
  let ?A = "\<lparr> ChartArgs.desiredOutcome = Some ''Fix our process'',
        ChartArgs.currentReality = Some ''We should talk more'',
        ChartArgs.dueDate = ''tomorrow'',
        ChartArgs.actionSteps = None,
        ChartArgs.model = None,
        ChartArgs.saveToMemory = None \<rparr>"
  have f: "chart_detectedProblems ''Fix our process'' = [''fix'']" by code_simp
  have b: "chart_detectedProblems ''Open a bakery'' = []" by code_simp
  have s: "chart_detectedActions ''We should talk more'' = [''should'']" by code_simp
  have n: "chart_detectedActions ''An empty shop'' = []" by code_simp
  have h: "''fix'' \<in> set [''fix'', ''solve'', ''eliminate'', ''prevent'', ''stop'', ''avoid'', ''reduce'']
      \<and> ''Fix our process'' = [] @ ''Fix'' @ '' our process'' \<and> toLowerCase ''Fix'' = ''fix''
      \<and> ''should'' \<in> set [''need to'', ''should'', ''must'', ''will'', ''plan to'', ''going to'']
      \<and> ''We should talk more'' = ''We '' @ ''should'' @ '' talk more''
      \<and> toLowerCase ''should'' = ''should''"
  proof (intro conjI)
    show "toLowerCase ''Fix'' = ''fix''" by code_simp
    show "toLowerCase ''should'' = ''should''" by code_simp
  qed simp_all
  note both = C8_first_violation_in_fixed_order [where d = "''Fix our process''"
      and r = "''We should talk more''" and due = "''tomorrow''" and t = 0
      and w = "''fix''" and p = "[]" and u = "''Fix''" and s = "'' our process''"
      and a = "''should''" and p' = "''We ''" and u' = "''should''" and s' = "'' talk more''"
      and args = ?A and env = ?E and executeGeminiCLI = echoEngine,
      THEN conjunct2, THEN conjunct2, THEN conjunct2, THEN conjunct2, THEN conjunct2,
      THEN conjunct2, THEN mp, OF h]
  have one: "validateChartElements ?E ''Fix our process'' ''We should talk more'' ''tomorrow''
      = Some (outcomeViolation [''fix''])"
    using both [THEN conjunct2, THEN conjunct2, THEN conjunct1] by (simp only: f)
  have "createTensionChartTool_execute ?E echoEngine ?A
      = (Inr (outcomeViolation (chart_detectedProblems ''Fix our process'')), [])"
    by (rule both [THEN conjunct2, THEN conjunct2, THEN conjunct2, THEN conjunct2, THEN mp])
      simp
  then have tool: "createTensionChartTool_execute ?E echoEngine ?A
      = (Inr (outcomeViolation [''fix'']), [])"
    by (simp only: f)
  have "validateChartElements ?E ''Open a bakery'' ''We should talk more'' ''tomorrow''
      = Some (realityViolation (chart_detectedActions ''We should talk more''))"
    by (rule C8_first_violation_in_fixed_order [where d = "''Open a bakery''"
        and r = "''We should talk more''" and due = "''tomorrow''" and env = ?E,
        THEN conjunct2, THEN conjunct1, THEN mp])
      (simp add: b s)
  then have two: "validateChartElements ?E ''Open a bakery'' ''We should talk more'' ''tomorrow''
      = Some (realityViolation [''should''])"
    by (simp only: s)
  have three: "validateChartElements ?E ''Open a bakery'' ''An empty shop'' ''tomorrow''
      = Some dateFormatViolation"
    by (rule C8_first_violation_in_fixed_order [where d = "''Open a bakery''"
        and r = "''An empty shop''" and due = "''tomorrow''" and env = ?E,
        THEN conjunct2, THEN conjunct2, THEN conjunct1, THEN mp])
      (simp add: b n)
  have four: "validateChartElements ?E5 ''Open a bakery'' ''An empty shop'' ''2020-01-01''
      = Some datePastViolation"
    by (rule C8_first_violation_in_fixed_order [where d = "''Open a bakery''"
        and r = "''An empty shop''" and due = "''2020-01-01''" and t = 5 and env = ?E5,
        THEN conjunct2, THEN conjunct2, THEN conjunct2, THEN conjunct1, THEN mp])
      (simp add: b n)
  have five: "validateChartElements ?E20 ''Open a bakery'' ''An empty shop'' ''2999-01-01''
      = None"
    by (rule C8_first_violation_in_fixed_order [where d = "''Open a bakery''"
        and r = "''An empty shop''" and due = "''2999-01-01''" and t = 20 and env = ?E20,
        THEN conjunct2, THEN conjunct2, THEN conjunct2, THEN conjunct2, THEN conjunct1,
        THEN mp])
      (simp add: b n)
  show ?thesis
    by (intro conjI one tool two three four five)
qed

section \<open>Runs of the scenarios of the specification\<close>

text \<open>
  Scenario A: three problem-solving words match (problem, fix, solve; \<open>broken\<close> is not in
  the list), so the type is problem-solving and the severity medium.
\<close>

lemma scenario_A:
  "hasBias (detectReactivePatterns ''I want to fix our broken process and solve the problem'')
   \<and> biasType (detectReactivePatterns ''I want to fix our broken process and solve the problem'')
       = ProblemSolving
   \<and> severity (detectReactivePatterns ''I want to fix our broken process and solve the problem'')
       = Medium"
proof -
  have p: "detectedProblems ''I want to fix our broken process and solve the problem''
             = [''problem'', ''fix'', ''solve'']"
    by code_simp
  show ?thesis
    by (simp add: detectReactivePatterns_def allDetected_def Let_def split_def p)
qed

text \<open>Scenario B: the vision scores 9 and the reality 7, the tension is 7.\<close>

lemma scenario_B:
  "analyzeVisionQuality ''Establish a thriving community garden'' = 9
   \<and> analyzeRealityQuality ''We currently have an empty lot and no funding'' = 7
   \<and> StructuralTension.tension
        (calculateStructuralTension ''Establish a thriving community garden''
           ''We currently have an empty lot and no funding'') = 7"
proof -
  have v: "analyzeVisionQuality ''Establish a thriving community garden'' = 9"
    by code_simp
  have r: "analyzeRealityQuality ''We currently have an empty lot and no funding'' = 7"
    by code_simp
  show ?thesis
    by (simp add: calculateStructuralTension_def v r)
qed

text \<open>
  Scenario C: a due date that parses to a time before the clock's, with wording that
  passes the first two rules, is refused as lying in the past.
\<close>

lemma scenario_C:
  "validateChartElements env ''Establish a thriving community garden''
      ''We currently have an empty lot and no funding'' due
    = (case parseDate env due of
         None \<Rightarrow> Some dateFormatViolation
       | Some dueDateTime \<Rightarrow> if dueDateTime < now env then Some datePastViolation else None)"
proof -
  have p: "chart_detectedProblems ''Establish a thriving community garden'' = []"
    by code_simp
  have a: "chart_detectedActions ''We currently have an empty lot and no funding'' = []"
    by code_simp
  show ?thesis
    by (simp add: validateChartElements_def Let_def p a)
qed


end
